theory Spec2Isabelle
  imports Complex_Main "HOL-Library.Sublist"
begin

section \<open>Python exceptions\<close>

text \<open>
  The exceptions the modelled code can raise. A function that can raise returns
  \<open>py_error + 'a\<close>, with \<open>Inl\<close> for the exception.
\<close>

datatype py_error =
  ValueError | TypeError | KeyError | AttributeError | NameError | ZeroDivisionError
  | IndexError | ConnectionError | HTTPError | JSONDecodeError

section \<open>Python strings\<close>

text \<open>
  A Python \<open>str\<close> is modelled as a \<open>string\<close> holding its UTF-8 bytes. The test
  \<open>a in b\<close> on strings is contiguous containment, \<open>sublist a b\<close>; containment of
  UTF-8 encodings coincides with containment of the code point sequences.

  \<open>str.lower()\<close> is modelled on the code points up to U+00FF: the letters A to Z, and
  the capital letters of the Latin-1 Supplement, U+00C0 to U+00DE without the
  multiplication sign U+00D7, among them the accented capitals of Spanish. Each of
  these is moved up by 32. In UTF-8 a letter of the Supplement is the byte 0xC3 followed
  by a byte from 0x80 to 0x9E, and its lower-case form has the second byte 32 higher.
  Cased letters beyond U+00FF are outside the model.
\<close>

definition lower_char :: "char \<Rightarrow> char" where
  "lower_char c =
     (if 65 \<le> (of_char c :: nat) \<and> (of_char c :: nat) \<le> 90
      then char_of ((of_char c :: nat) + 32) else c)"

definition lower_latin1 :: "char \<Rightarrow> char" where
  "lower_latin1 d =
     (if 0x80 \<le> (of_char d :: nat) \<and> (of_char d :: nat) \<le> 0x9E \<and> (of_char d :: nat) \<noteq> 0x97
      then char_of ((of_char d :: nat) + 32) else d)"

fun lower :: "string \<Rightarrow> string" where
  "lower [] = []"
| "lower [c] = [lower_char c]"
| "lower (c # d # cs) =
     (if (of_char c :: nat) = 0xC3 then c # lower_latin1 d # lower cs
      else lower_char c # lower (d # cs))"

text \<open>\<open>sep.join(xs)\<close>.\<close>

fun join :: "string \<Rightarrow> string list \<Rightarrow> string" where
  "join sep [] = []"
| "join sep [x] = x"
| "join sep (x # y # ys) = x @ sep @ join sep (y # ys)"

section \<open>OSM candidates (transform/overpass\_queries.py)\<close>

text \<open>
  \<open>class OSMChurch\<close>: the constructor's annotations type \<open>name\<close> as \<open>str\<close> and
  the coordinates and the distance as \<open>float\<close> (modelled as \<open>real\<close>). \<open>osm_id\<close> and
  \<open>osm_type\<close> are filled from \<open>element.get(...)\<close> with no default, hence optional.
\<close>

record OSMChurch =
  osm_id :: "int option"
  osm_type :: "string option"
  name :: string
  lat :: real
  lon :: real
  distance :: real

text \<open>
  The configuration the client reads (\<open>config.osm\<close> of core/config.py). The values
  come from the process environment, so they are parameters here; \<open>config_osm_default\<close>
  holds the defaults of the source.
\<close>

record config_osm =
  overpass_url :: string
  default_search_radius_m :: nat
  timeout :: nat

definition config_osm_default :: config_osm where
  "config_osm_default =
     \<lparr>overpass_url = ''https://overpass-api.de/api/interpreter'',
      default_search_radius_m = 150, timeout = 30\<rparr>"

text \<open>
  The request the client posts. The source builds an Overpass QL text from the timeout,
  the radius and the query point, and posts it to \<open>overpass_url\<close> with the same timeout;
  the record keeps those values.
\<close>

record overpass_request =
  req_url :: string
  req_timeout :: nat
  req_radius_m :: nat
  req_lat :: real
  req_lon :: real

text \<open>
  One entry of the reply's \<open>elements\<close> list, with what the client reads of it:
  \<open>element.get('type')\<close>, \<open>element.get('id')\<close>, \<open>element.get('tags', {})\<close> (OSM tags map
  strings to strings), \<open>element.get('lat')\<close>, \<open>element.get('lon')\<close>, and the \<open>center\<close>
  object with its own \<open>lat\<close> and \<open>lon\<close> when the key is present.
\<close>

record element =
  el_type :: "string option"
  el_id :: "int option"
  el_tags :: "(string \<rightharpoonup> string) option"
  el_lat :: "real option"
  el_lon :: "real option"
  el_center :: "(real option \<times> real option) option"

text \<open>
  The HTTP reply: its status code and its body. \<open>json_body\<close> is \<open>None\<close> when
  \<open>response.json()\<close> raises; otherwise it holds the value of the document's
  \<open>elements\<close> key (\<open>None\<close> when the key is absent).
\<close>

record response =
  status_code :: nat
  json_body :: "element list option option"

text \<open>\<open>response.raise_for_status()\<close>: client and server error codes raise.\<close>

definition raise_for_status :: "response \<Rightarrow> py_error + unit" where
  "raise_for_status r =
     (if 400 \<le> status_code r \<and> status_code r < 600 then Inl HTTPError else Inr ())"

text \<open>\<open>response.json()\<close>.\<close>

definition json :: "response \<Rightarrow> py_error + element list option" where
  "json r = (case json_body r of None \<Rightarrow> Inl JSONDecodeError | Some d \<Rightarrow> Inr d)"

text \<open>
  \<open>math.radians\<close>, and \<open>math.sqrt\<close> and \<open>math.asin\<close>, which raise \<open>ValueError\<close>
  outside their domains. Numbers are real numbers here, not floats.
\<close>

definition radians :: "real \<Rightarrow> real" where
  "radians x = x * pi / 180"

definition py_sqrt :: "real \<Rightarrow> py_error + real" where
  "py_sqrt x = (if x < 0 then Inl ValueError else Inr (sqrt x))"

definition py_asin :: "real \<Rightarrow> py_error + real" where
  "py_asin x = (if x < - 1 \<or> 1 < x then Inl ValueError else Inr (arcsin x))"

text \<open>\<open>OverpassClient._haversine_distance\<close>.\<close>

definition haversine_distance :: "real \<Rightarrow> real \<Rightarrow> real \<Rightarrow> real \<Rightarrow> py_error + real" where
  "haversine_distance lat1 lon1 lat2 lon2 =
     (let R = 6371000;
          lat1 = radians lat1; lon1 = radians lon1;
          lat2 = radians lat2; lon2 = radians lon2;
          dlat = lat2 - lat1;
          dlon = lon2 - lon1;
          a = (sin (dlat / 2))\<^sup>2 + cos lat1 * cos lat2 * (sin (dlon / 2))\<^sup>2
      in case py_sqrt a of
           Inl err \<Rightarrow> Inl err
         | Inr sq \<Rightarrow>
             (case py_asin sq of
                Inl err \<Rightarrow> Inl err
              | Inr angle \<Rightarrow> Inr (R * (2 * angle))))"

text \<open>\<open>element.get('tags', {}).get('name', 'Sin nombre')\<close>.\<close>

definition element_name :: "element \<Rightarrow> string" where
  "element_name e =
     (case (case el_tags e of None \<Rightarrow> Map.empty | Some tags \<Rightarrow> tags) ''name'' of
        None \<Rightarrow> ''Sin nombre''
      | Some n \<Rightarrow> n)"

text \<open>
  The coordinates the loop body reads of an element: a node's own, else those of its
  \<open>center\<close>; \<open>None\<close> is the \<open>continue\<close> branch.
\<close>

definition element_coords :: "element \<Rightarrow> (real option \<times> real option) option" where
  "element_coords e =
     (if el_type e = Some ''node'' then Some (el_lat e, el_lon e)
      else el_center e)"

text \<open>
  The loop \<open>for element in data.get('elements', [])\<close>. A coordinate that is \<open>None\<close>
  makes \<open>radians\<close> raise \<open>TypeError\<close> inside \<open>_haversine_distance\<close>. The first element
  that raises ends the loop.
\<close>

fun parse_elements :: "real \<Rightarrow> real \<Rightarrow> element list \<Rightarrow> py_error + OSMChurch list" where
  "parse_elements qlat qlon [] = Inr []"
| "parse_elements qlat qlon (e # es) =
     (case element_coords e of
        None \<Rightarrow> parse_elements qlat qlon es
      | Some (Some elem_lat, Some elem_lon) \<Rightarrow>
          (case haversine_distance qlat qlon elem_lat elem_lon of
             Inl err \<Rightarrow> Inl err
           | Inr d \<Rightarrow>
               (case parse_elements qlat qlon es of
                  Inl err \<Rightarrow> Inl err
                | Inr churches \<Rightarrow>
                    Inr (\<lparr>osm_id = el_id e, osm_type = el_type e, name = element_name e,
                           lat = elem_lat, lon = elem_lon, distance = d\<rparr>
                         # churches)))
      | Some _ \<Rightarrow> Inl TypeError)"

text \<open>
  The body of the \<open>try\<close> block of \<open>OverpassClient.find_churches_nearby\<close>. The network
  is the parameter \<open>post\<close> (\<open>requests.post\<close>): it raises or returns a reply.
  \<open>build_query\<close> is the request, with the default radius of the configuration when
  \<open>radius_m\<close> is \<open>None\<close>. \<open>sorted(churches, key=lambda x: x.distance)\<close> is a stable sort
  on the distance.
\<close>

definition build_query :: "config_osm \<Rightarrow> real \<Rightarrow> real \<Rightarrow> nat option \<Rightarrow> overpass_request" where
  "build_query cfg qlat qlon radius_m =
     \<lparr>req_url = overpass_url cfg, req_timeout = timeout cfg,
      req_radius_m = (case radius_m of None \<Rightarrow> default_search_radius_m cfg | Some r \<Rightarrow> r),
      req_lat = qlat, req_lon = qlon\<rparr>"

definition find_churches_nearby_try ::
  "config_osm \<Rightarrow> (overpass_request \<Rightarrow> py_error + response) \<Rightarrow> real \<Rightarrow> real \<Rightarrow> nat option
     \<Rightarrow> py_error + OSMChurch list" where
  "find_churches_nearby_try cfg post qlat qlon radius_m =
     (case post (build_query cfg qlat qlon radius_m) of
        Inl err \<Rightarrow> Inl err
      | Inr resp \<Rightarrow>
          (case raise_for_status resp of
             Inl err \<Rightarrow> Inl err
           | Inr _ \<Rightarrow>
               (case json resp of
                  Inl err \<Rightarrow> Inl err
                | Inr data \<Rightarrow>
                    (case parse_elements qlat qlon
                            (case data of None \<Rightarrow> [] | Some els \<Rightarrow> els) of
                       Inl err \<Rightarrow> Inl err
                     | Inr churches \<Rightarrow> Inr (sort_key distance churches)))))"

text \<open>
  \<open>OverpassClient.find_churches_nearby\<close>: \<open>except Exception\<close> prints the error and
  returns the empty list.
\<close>

definition find_churches_nearby ::
  "config_osm \<Rightarrow> (overpass_request \<Rightarrow> py_error + response) \<Rightarrow> real \<Rightarrow> real \<Rightarrow> nat option
     \<Rightarrow> OSMChurch list" where
  "find_churches_nearby cfg post qlat qlon radius_m =
     (case find_churches_nearby_try cfg post qlat qlon radius_m of
        Inl err \<Rightarrow> []
      | Inr churches \<Rightarrow> churches)"

section \<open>OSM match resolver (transform/osm\_matcher.py)\<close>

record OSMMatchResult =
  osm_church :: OSMChurch
  confidence :: real

text \<open>
  The loop \<open>for church in osm_churches\<close> of \<open>find_match\<close>: the first church whose
  lowered name is contained in the lowered title, or contains it.
\<close>

fun name_match :: "string \<Rightarrow> OSMChurch list \<Rightarrow> OSMChurch option" where
  "name_match titulo [] = None"
| "name_match titulo (church # rest) =
     (let church_name = lower (name church)
      in if sublist church_name titulo \<or> sublist titulo church_name
         then Some church
         else name_match titulo rest)"

text \<open>
  \<open>IdealistaOSMMatcher.find_match\<close>. The first argument is the value of
  \<open>inmueble.get('titulo')\<close>: \<open>None\<close> when the key is absent or holds \<open>None\<close>;
  \<open>(... or '')\<close> turns both, and the empty string, into \<open>''\<close>.
\<close>

definition find_match :: "string option \<Rightarrow> OSMChurch list \<Rightarrow> OSMMatchResult option" where
  "find_match inmueble_titulo osm_churches =
     (case osm_churches of
        [] \<Rightarrow> None
      | closest # _ \<Rightarrow>
          (let titulo = lower (case inmueble_titulo of None \<Rightarrow> [] | Some t \<Rightarrow> t)
           in case name_match titulo osm_churches of
                Some church \<Rightarrow> Some \<lparr>osm_church = church, confidence = 95\<rparr>
              | None \<Rightarrow>
                  if distance closest < 50
                  then Some \<lparr>osm_church = closest, confidence = 80\<rparr>
                  else if distance closest < 150
                  then Some \<lparr>osm_church = closest, confidence = 60\<rparr>
                  else None))"

section \<open>Monitor scheduler (core/geo/region\_monitor.py)\<close>

text \<open>
  \<open>RegionMonitor.active_monitors\<close> maps a region id to the \<open>asyncio.Task\<close> that runs
  \<open>_monitor_loop\<close> for it. A task is identified by a handle; \<open>running\<close> lists the
  loop tasks the event loop holds, in the order of their creation, and \<open>next_handle\<close>
  is the handle the next \<open>asyncio.create_task\<close> returns.
\<close>

record monitor_task =
  handle :: nat
  task_region_id :: int
  task_interval_hours :: int

record monitor_state =
  active_monitors :: "int \<rightharpoonup> nat"
  running :: "monitor_task list"
  next_handle :: nat

text \<open>The state \<open>RegionMonitor.__init__\<close> leaves: \<open>active_monitors = {}\<close>.\<close>

definition monitor_init :: monitor_state where
  "monitor_init = \<lparr>active_monitors = Map.empty, running = [], next_handle = 0\<rparr>"

text \<open>
  \<open>RegionMonitor.start_monitoring\<close>. It has no \<open>await\<close>, so it runs as one step.
\<close>

definition start_monitoring :: "int \<Rightarrow> int \<Rightarrow> monitor_state \<Rightarrow> monitor_state" where
  "start_monitoring region_id interval_hours s =
     (if region_id \<in> dom (active_monitors s) then s
      else s\<lparr>running := running s @
                 [\<lparr>handle = next_handle s, task_region_id = region_id,
                   task_interval_hours = interval_hours\<rparr>],
             active_monitors := (active_monitors s)(region_id \<mapsto> next_handle s),
             next_handle := Suc (next_handle s)\<rparr>)"

text \<open>
  \<open>RegionMonitor.stop_monitoring\<close>: \<open>task.cancel()\<close> and \<open>await task\<close> end the loop
  task (\<open>_monitor_loop\<close> leaves its loop on \<open>CancelledError\<close>, and the \<open>except\<close> around
  the \<open>await\<close> absorbs it), then \<open>del self.active_monitors[region_id]\<close>.
\<close>

definition stop_monitoring :: "int \<Rightarrow> monitor_state \<Rightarrow> monitor_state" where
  "stop_monitoring region_id s =
     (case active_monitors s region_id of
        None \<Rightarrow> s
      | Some task \<Rightarrow>
          s\<lparr>running := filter (\<lambda>t. handle t \<noteq> task) (running s),
            active_monitors := (active_monitors s)(region_id := None)\<rparr>)"

text \<open>The states a monitor goes through under any sequence of starts and stops.\<close>

inductive reachable :: "monitor_state \<Rightarrow> bool" where
  init: "reachable monitor_init"
| start: "reachable s \<Longrightarrow> reachable (start_monitoring region_id interval_hours s)"
| stop: "reachable s \<Longrightarrow> reachable (stop_monitoring region_id s)"

text \<open>The loop tasks that monitor a region.\<close>

definition tasks_for :: "int \<Rightarrow> monitor_state \<Rightarrow> monitor_task list" where
  "tasks_for region_id s = filter (\<lambda>t. task_region_id t = region_id) (running s)"

text \<open>
  What holds of every reachable state: handles are distinct and below \<open>next_handle\<close>,
  every loop task is the one \<open>active_monitors\<close> records for its region, and every
  recorded handle is that of a loop task of the region.
\<close>

definition monitor_inv :: "monitor_state \<Rightarrow> bool" where
  "monitor_inv s \<longleftrightarrow>
     distinct (map handle (running s))
     \<and> (\<forall>t\<in>set (running s). handle t < next_handle s
            \<and> active_monitors s (task_region_id t) = Some (handle t))
     \<and> (\<forall>r h. active_monitors s r = Some h \<longrightarrow>
            (\<exists>t\<in>set (running s). handle t = h \<and> task_region_id t = r))"

section \<open>Scoring engine (transform/scorer.py)\<close>

text \<open>
  The keyword lists \<open>POSITIVE\<close>, \<open>NEGATIVE\<close> and \<open>EXPLICIT\<close> are imported from a
  \<open>keywords\<close> module that is not among the sources, so they are parameters.
\<close>

record keyword_lists =
  POSITIVE :: "string list"
  NEGATIVE :: "string list"
  EXPLICIT :: "string list"

text \<open>The weights and thresholds of idealista/config/scoring.py.\<close>

definition WEIGHTS_keywords :: int where
  "WEIGHTS_keywords = 70"

definition PROXIMITY_radius_meters :: nat where
  "PROXIMITY_radius_meters = 200"

definition PROXIMITY_max_score :: real where
  "PROXIMITY_max_score = 20"

definition SURFACE_min_size_m2 :: nat where
  "SURFACE_min_size_m2 = 300"

definition SURFACE_max_score :: real where
  "SURFACE_max_score = 10"

definition SURFACE_bonus_high_ceilings :: real where
  "SURFACE_bonus_high_ceilings = 3"

definition SURFACE_bonus_multiple_floors :: real where
  "SURFACE_bonus_multiple_floors = 3"

text \<open>
  What \<open>score\<close> reads of the dictionary it is given: \<open>titulo_completo\<close> and
  \<open>caracteristicas_extras\<close> (\<open>None\<close>: the key is absent, and \<open>get\<close> falls back to
  \<open>''\<close> and \<open>[]\<close>), \<open>latitud\<close>, \<open>longitud\<close> and \<open>m2_construidos\<close> (\<open>None\<close>: the key is
  absent or holds \<open>None\<close>). It reads no other key.
\<close>

record inmueble =
  titulo_completo :: "string option"
  caracteristicas_extras :: "string list option"
  latitud :: "real option"
  longitud :: "real option"
  m2_construidos :: "real option"

text \<open>
  The evidence notes. The source appends formatted texts, several of them with letters
  outside ASCII; a note is modelled by a constructor for its template, with the values
  the template is filled with:
  \<^item> \<open>Keyword_explicita\<close>: the explicit keyword note (100 \%);
  \<^item> \<open>Keyword_positiva kw\<close>, \<open>Keyword_negativa kw\<close>: a keyword of the pool;
  \<^item> \<open>Iglesias_OSM n radius d\<close>: \<open>n\<close> churches within \<open>radius\<close> metres, the closest at \<open>d\<close>;
  \<^item> \<open>Superficie m2\<close>: the surface reaches \<open>m2\<close>;
  \<^item> \<open>Techos_altos\<close>, \<open>Multiples_niveles\<close>: the two feature bonuses.
\<close>

datatype evidence =
  Keyword_explicita
  | Keyword_positiva string
  | Keyword_negativa string
  | Iglesias_OSM nat nat real
  | Superficie nat
  | Techos_altos
  | Multiples_niveles

text \<open>
  The method binds its list of notes as \<open>evidences\<close> and never uses that name again:
  every later statement appends to, and the \<open>return\<close> reads, \<open>evidencias\<close>, which is no
  local of the method, no global of the module and no builtin. Reading the name raises
  \<open>NameError\<close>. (The same computation stands inline in extract/scraper.py, with the one
  name \<open>evidencias\<close> throughout.)
\<close>

definition evidencias :: "py_error + evidence list" where
  "evidencias = Inl NameError"

text \<open>\<open>evidencias.append(note)\<close>.\<close>

definition evidencias_append :: "evidence \<Rightarrow> py_error + unit" where
  "evidencias_append note = (case evidencias of Inl err \<Rightarrow> Inl err | Inr notes \<Rightarrow> Inr ())"

text \<open>
  \<open>self.overpass\<close>: \<open>ReligiousPropertyScorer.__init__\<close> is \<open>pass\<close> and the class has no
  such attribute, so reading it raises \<open>AttributeError\<close>.
\<close>

definition self_overpass ::
  "py_error + (real \<Rightarrow> real \<Rightarrow> nat option \<Rightarrow> OSMChurch list)" where
  "self_overpass = Inl AttributeError"

text \<open>
  The two loops over the keyword pool: \<open>for kw in POSITIVE\<close> adds
  \<open>WEIGHTS["keywords"] // len(POSITIVE)\<close> for each keyword whose lowered form the text
  holds and then appends a note, \<open>for kw in NEGATIVE\<close> subtracts
  \<open>WEIGHTS["keywords"] // len(NEGATIVE)\<close> and appends a note. The division is only
  evaluated inside the loop, where the list is not empty. The functions carry the local
  \<open>score\<close>.
\<close>

fun positive_loop :: "string list \<Rightarrow> string \<Rightarrow> string list \<Rightarrow> real \<Rightarrow> py_error + real" where
  "positive_loop pool text_lower [] sc = Inr sc"
| "positive_loop pool text_lower (kw # kws) sc =
     (if sublist (lower kw) text_lower
      then (case evidencias_append (Keyword_positiva kw) of
              Inl err \<Rightarrow> Inl err
            | Inr _ \<Rightarrow>
                positive_loop pool text_lower kws
                  (sc + real_of_int (WEIGHTS_keywords div int (length pool))))
      else positive_loop pool text_lower kws sc)"

fun negative_loop :: "string list \<Rightarrow> string \<Rightarrow> string list \<Rightarrow> real \<Rightarrow> py_error + real" where
  "negative_loop pool text_lower [] sc = Inr sc"
| "negative_loop pool text_lower (kw # kws) sc =
     (if sublist (lower kw) text_lower
      then (case evidencias_append (Keyword_negativa kw) of
              Inl err \<Rightarrow> Inl err
            | Inr _ \<Rightarrow>
                negative_loop pool text_lower kws
                  (sc - real_of_int (WEIGHTS_keywords div int (length pool))))
      else negative_loop pool text_lower kws sc)"

text \<open>Step 1 of \<open>score\<close>: the explicit keywords, else the pool.\<close>

definition score_keywords :: "keyword_lists \<Rightarrow> string \<Rightarrow> py_error + real" where
  "score_keywords kws text_lower =
     (if list_ex (\<lambda>k. sublist k text_lower) (EXPLICIT kws)
      then (case evidencias_append Keyword_explicita of
              Inl err \<Rightarrow> Inl err
            | Inr _ \<Rightarrow> Inr 100)
      else (case positive_loop (POSITIVE kws) text_lower (POSITIVE kws) 0 of
              Inl err \<Rightarrow> Inl err
            | Inr sc \<Rightarrow> negative_loop (NEGATIVE kws) text_lower (NEGATIVE kws) sc))"

text \<open>
  Step 2: the OSM proximity bonus, when both coordinates are present, through
  \<open>self.overpass.find_churches_nearby\<close>.
\<close>

definition score_proximity :: "inmueble \<Rightarrow> real \<Rightarrow> py_error + real" where
  "score_proximity i sc =
     (case (latitud i, longitud i) of
        (Some la, Some lo) \<Rightarrow>
          (case self_overpass of
             Inl err \<Rightarrow> Inl err
           | Inr find_nearby \<Rightarrow>
               (case find_nearby la lo (Some PROXIMITY_radius_meters) of
                  [] \<Rightarrow> Inr sc
                | closest # rest \<Rightarrow>
                    (case evidencias_append
                            (Iglesias_OSM (length (closest # rest)) PROXIMITY_radius_meters
                               (distance closest)) of
                       Inl err \<Rightarrow> Inl err
                     | Inr _ \<Rightarrow>
                         Inr (sc + PROXIMITY_max_score * (1 - min (distance closest / 300) 1)))))
      | _ \<Rightarrow> Inr sc)"

text \<open>
  Step 3: surface and features. \<open>if m2 and m2 >= ...\<close> is false for \<open>None\<close> and for 0.
  The second phrase of the last test is \<open>m\<close>, the two UTF-8 bytes of u with an acute
  accent, and \<open>ltiples niveles\<close>.
\<close>

definition score_m2 :: "inmueble \<Rightarrow> real \<Rightarrow> py_error + real" where
  "score_m2 i sc =
     (case m2_construidos i of
        None \<Rightarrow> Inr sc
      | Some m2 \<Rightarrow>
          if m2 \<noteq> 0 \<and> m2 \<ge> real SURFACE_min_size_m2
          then (case evidencias_append (Superficie SURFACE_min_size_m2) of
                  Inl err \<Rightarrow> Inl err
                | Inr _ \<Rightarrow> Inr (sc + SURFACE_max_score))
          else Inr sc)"

definition score_features :: "inmueble \<Rightarrow> real \<Rightarrow> py_error + real" where
  "score_features i sc =
     (let extras = lower (join '' '' (case caracteristicas_extras i of None \<Rightarrow> [] | Some xs \<Rightarrow> xs))
      in case (if list_ex (\<lambda>t. sublist t extras) [''techos altos'', ''doble altura'']
               then (case evidencias_append Techos_altos of
                       Inl err \<Rightarrow> Inl err
                     | Inr _ \<Rightarrow> Inr (sc + SURFACE_bonus_high_ceilings))
               else Inr sc) of
           Inl err \<Rightarrow> Inl err
         | Inr sc1 \<Rightarrow>
             if list_ex (\<lambda>t. sublist t extras)
                  [''varias plantas'', ''m'' @ [CHR 0xC3, CHR 0xBA] @ ''ltiples niveles'']
             then (case evidencias_append Multiples_niveles of
                     Inl err \<Rightarrow> Inl err
                   | Inr _ \<Rightarrow> Inr (sc1 + SURFACE_bonus_multiple_floors))
             else Inr sc1)"

text \<open>
  The text the keywords are searched in: the title, a space, and the extra features
  joined by spaces.
\<close>

definition listing_text :: "inmueble \<Rightarrow> string" where
  "listing_text i =
     (case titulo_completo i of None \<Rightarrow> [] | Some t \<Rightarrow> t) @ '' '' @
     join '' '' (case caracteristicas_extras i of None \<Rightarrow> [] | Some xs \<Rightarrow> xs)"

text \<open>
  \<open>ReligiousPropertyScorer.score\<close>: the three steps, then
  \<open>return min(score, 100), evidencias\<close>, which evaluates the minimum and then reads
  \<open>evidencias\<close>.
\<close>

definition score :: "keyword_lists \<Rightarrow> inmueble \<Rightarrow> py_error + real \<times> evidence list" where
  "score kws i =
     (case score_keywords kws (lower (listing_text i)) of
        Inl err \<Rightarrow> Inl err
      | Inr sc1 \<Rightarrow>
          (case score_proximity i sc1 of
             Inl err \<Rightarrow> Inl err
           | Inr sc2 \<Rightarrow>
               (case score_m2 i sc2 of
                  Inl err \<Rightarrow> Inl err
                | Inr sc3 \<Rightarrow>
                    (case score_features i sc3 of
                       Inl err \<Rightarrow> Inl err
                     | Inr sc4 \<Rightarrow>
                         (case evidencias of
                            Inl err \<Rightarrow> Inl err
                          | Inr notes \<Rightarrow> Inr (min sc4 100, notes))))))"

section \<open>Regions (core/geo/models.py)\<close>

datatype RegionShape = CIRCLE | POLYGON | BOUNDING_BOX | ADMINISTRATIVE

text \<open>
  \<open>class GeoRegion\<close>: a dataclass whose fields all default to \<open>None\<close>, but \<open>is_active\<close>.
  \<open>region_ident\<close> and \<open>region_name\<close> are its fields \<open>id\<close> and \<open>name\<close>; times are
  numbers.
\<close>

record GeoRegion =
  region_ident :: "int option"
  region_name :: "string option"
  shape_type :: "RegionShape option"
  center_lat :: "real option"
  center_lon :: "real option"
  radius_m :: "int option"
  coordinates :: "(real \<times> real) list option"
  osm_relation_id :: "int option"
  admin_level :: "int option"
  address :: "string option"
  description :: "string option"
  created_at :: "nat option"
  created_by :: "string option"
  is_active :: bool
  last_checked :: "nat option"

text \<open>\<open>math.atan2\<close>.\<close>

definition atan2 :: "real \<Rightarrow> real \<Rightarrow> real" where
  "atan2 y x =
     (if 0 < x then arctan (y / x)
      else if x < 0 \<and> 0 \<le> y then arctan (y / x) + pi
      else if x < 0 \<and> y < 0 then arctan (y / x) - pi
      else if 0 < y then pi / 2
      else if y < 0 then - pi / 2
      else 0)"

text \<open>
  The haversine distance as \<open>GeoRegion.contains_point\<close> and
  \<open>RegionMonitor._calculate_distance\<close> both write it, with \<open>atan2\<close>.
\<close>

definition calculate_distance :: "real \<Rightarrow> real \<Rightarrow> real \<Rightarrow> real \<Rightarrow> py_error + real" where
  "calculate_distance lat1 lon1 lat2 lon2 =
     (let R = 6371000;
          lat1_rad = radians lat1;
          lat2_rad = radians lat2;
          delta_lat = radians (lat2 - lat1);
          delta_lon = radians (lon2 - lon1);
          a = (sin (delta_lat / 2))\<^sup>2 + cos lat1_rad * cos lat2_rad * (sin (delta_lon / 2))\<^sup>2
      in case py_sqrt a of
           Inl err \<Rightarrow> Inl err
         | Inr sa \<Rightarrow>
             (case py_sqrt (1 - a) of
                Inl err \<Rightarrow> Inl err
              | Inr sb \<Rightarrow> Inr (R * (2 * atan2 sa sb))))"

text \<open>
  \<open>GeoRegion.contains_point\<close>. A circle whose centre or radius is \<open>None\<close> raises
  \<open>TypeError\<close>. For every other shape the method returns \<open>False\<close>: the source notes
  that polygons and boxes are better left to PostGIS, and that this is a simplified
  implementation.
\<close>

definition contains_point :: "GeoRegion \<Rightarrow> real \<Rightarrow> real \<Rightarrow> py_error + bool" where
  "contains_point region la lo =
     (if shape_type region = Some CIRCLE
      then (case (center_lat region, center_lon region) of
              (Some clat, Some clon) \<Rightarrow>
                (case calculate_distance clat clon la lo of
                   Inl err \<Rightarrow> Inl err
                 | Inr d \<Rightarrow>
                     (case radius_m region of
                        None \<Rightarrow> Inl TypeError
                      | Some r \<Rightarrow> Inr (d \<le> real_of_int r)))
            | _ \<Rightarrow> Inl TypeError)
      else Inr False)"

text \<open>
  \<open>GeoRegion.get_bounding_box\<close>, as \<open>(min_lat, min_lon, max_lat, max_lon)\<close>; \<open>None\<close>
  for an administrative region. For a circle the method first divides \<open>radius_m\<close> by
  111000, which raises \<open>TypeError\<close> when the radius is \<open>None\<close>, and then calls
  \<open>cos(radians(...))\<close>. The module imports \<open>cos\<close> and \<open>radians\<close> only inside
  \<open>contains_point\<close>; in \<open>get_bounding_box\<close> neither name is bound, and looking up
  \<open>cos\<close> raises \<open>NameError\<close>.
\<close>

definition get_bounding_box ::
  "GeoRegion \<Rightarrow> py_error + (real \<times> real \<times> real \<times> real) option" where
  "get_bounding_box region =
     (case shape_type region of
        Some CIRCLE \<Rightarrow>
          (case radius_m region of
             None \<Rightarrow> Inl TypeError
           | Some r \<Rightarrow> Inl NameError)
      | Some POLYGON \<Rightarrow>
          (case coordinates region of
             None \<Rightarrow> Inl TypeError
           | Some [] \<Rightarrow> Inl ValueError
           | Some (c # cs) \<Rightarrow>
               (let lats = map fst (c # cs); lons = map snd (c # cs)
                in Inr (Some (Min (set lats), Min (set lons), Max (set lats), Max (set lons)))))
      | Some BOUNDING_BOX \<Rightarrow>
          (case coordinates region of
             None \<Rightarrow> Inl TypeError
           | Some ((sw_lat, sw_lon) # (ne_lat, ne_lon) # _) \<Rightarrow>
               Inr (Some (sw_lat, sw_lon, ne_lat, ne_lon))
           | Some _ \<Rightarrow> Inl IndexError)
      | _ \<Rightarrow> Inr None)"

text \<open>
  The point-in-polygon test in the words of the specification, by ray casting against
  the vertex ring: a ray from the point crosses an odd number of the ring's edges. It is
  not taken from the source, which has no such test; it states what the specification
  asks of \<open>containsPoint\<close> on polygons and boxes.
\<close>

definition spec_edge_crosses :: "real \<Rightarrow> real \<Rightarrow> (real \<times> real) \<times> (real \<times> real) \<Rightarrow> bool" where
  "spec_edge_crosses la lo edge =
     (case edge of ((lat1, lon1), (lat2, lon2)) \<Rightarrow>
        (lo < lon1) \<noteq> (lo < lon2)
        \<and> la < (lat2 - lat1) * (lo - lon1) / (lon2 - lon1) + lat1)"

definition spec_point_in_ring :: "(real \<times> real) list \<Rightarrow> real \<Rightarrow> real \<Rightarrow> bool" where
  "spec_point_in_ring ring la lo =
     odd (length (filter (spec_edge_crosses la lo) (zip ring (rotate1 ring))))"

section \<open>Region scanner (core/geo/region\_monitor.py)\<close>

text \<open>
  \<open>class RegionAlert\<close> (core/geo/models.py). \<open>alert_ident\<close>, \<open>alert_score\<close>,
  \<open>alert_lat\<close> and \<open>alert_lon\<close> are its fields \<open>id\<close>, \<open>score\<close>, \<open>lat\<close> and \<open>lon\<close>.
\<close>

record RegionAlert =
  alert_ident :: "int option"
  region_id :: int
  inmueble_id :: string
  portal :: string
  titulo :: "string option"
  precio :: "real option"
  alert_score :: real
  status :: "string option"
  alert_lat :: real
  alert_lon :: real
  distance_to_center_m :: "real option"
  osm_church_id :: "int option"
  osm_church_name :: "string option"
  osm_distance_m :: "real option"
  detected_at :: nat
  notified :: bool
  notified_at :: "nat option"

text \<open>The columns of \<open>portals.inmuebles_raw\<close> that the scan reads.\<close>

record inmueble_raw =
  raw_id :: int
  raw_portal :: string
  raw_id_portal :: string
  raw_titulo :: "string option"
  raw_descripcion :: "string option"
  raw_precio :: "real option"
  raw_lat :: "real option"
  raw_lon :: "real option"
  raw_geo_type :: "string option"
  raw_caracteristicas :: "string list option"
  raw_is_active :: bool

text \<open>A row of \<open>portals.detecciones\<close>; the table is keyed by \<open>inmueble_id\<close>.\<close>

record deteccion =
  det_score :: "real option"
  det_status :: "string option"
  det_evidences :: "evidence list option"
  det_osm_match_id :: "int option"
  det_osm_match_type :: "string option"
  precio_inicial :: "real option"
  precio_actual :: "real option"

text \<open>
  The store behind \<open>self.db\<close>: the two tables above, \<open>regions.geo_regions\<close> keyed by
  the region id, and \<open>regions.region_alerts\<close>.
\<close>

record database =
  inmuebles_raw :: "inmueble_raw list"
  detecciones :: "int \<rightharpoonup> deteccion"
  geo_regions :: "int \<rightharpoonup> GeoRegion"
  region_alerts :: "RegionAlert list"

text \<open>
  A row of the scan's query, \<open>inmuebles_raw\<close> left-joined with \<open>detecciones\<close>. The
  fields \<open>row_id\<close>, \<open>row_portal\<close>, \<open>row_titulo\<close>, \<open>row_precio\<close>, \<open>row_lat\<close>, \<open>row_lon\<close>,
  \<open>row_score\<close> and \<open>row_status\<close> are the columns \<open>id\<close>, \<open>portal\<close>, \<open>titulo\<close>, \<open>precio\<close>,
  \<open>lat\<close>, \<open>lon\<close>, \<open>score\<close> and \<open>status\<close>. The \<open>WHERE\<close> clause leaves no row whose
  \<open>lat\<close> or \<open>lon\<close> is null.
\<close>

record scan_row =
  row_id :: int
  row_portal :: string
  id_portal :: string
  row_titulo :: "string option"
  descripcion :: "string option"
  row_precio :: "real option"
  row_lat :: real
  row_lon :: real
  geo_type :: "string option"
  caracteristicas :: "string list option"
  row_score :: "real option"
  row_status :: "string option"
  evidences :: "evidence list option"
  osm_match_id :: "int option"
  osm_match_type :: "string option"

text \<open>
  The query of \<open>scan_region\<close>: the active listings inside the bounding box whose stored
  score is null or at least \<open>min_score\<close>.
\<close>

definition query_row ::
  "database \<Rightarrow> real \<times> real \<times> real \<times> real \<Rightarrow> real \<Rightarrow> inmueble_raw \<Rightarrow> scan_row option" where
  "query_row db bbox min_score i =
     (case bbox of (min_lat, min_lon, max_lat, max_lon) \<Rightarrow>
        (case (raw_lat i, raw_lon i) of
           (Some la, Some lo) \<Rightarrow>
             (let d = detecciones db (raw_id i);
                  d_score = (case d of None \<Rightarrow> None | Some r \<Rightarrow> det_score r)
              in if raw_is_active i
                    \<and> min_lat \<le> la \<and> la \<le> max_lat
                    \<and> min_lon \<le> lo \<and> lo \<le> max_lon
                    \<and> (case d_score of None \<Rightarrow> True | Some s \<Rightarrow> min_score \<le> s)
                 then Some \<lparr>row_id = raw_id i, row_portal = raw_portal i,
                             id_portal = raw_id_portal i, row_titulo = raw_titulo i,
                             descripcion = raw_descripcion i, row_precio = raw_precio i,
                             row_lat = la, row_lon = lo, geo_type = raw_geo_type i,
                             caracteristicas = raw_caracteristicas i,
                             row_score = d_score,
                             row_status = (case d of None \<Rightarrow> None | Some r \<Rightarrow> det_status r),
                             evidences = (case d of None \<Rightarrow> None | Some r \<Rightarrow> det_evidences r),
                             osm_match_id =
                               (case d of None \<Rightarrow> None | Some r \<Rightarrow> det_osm_match_id r),
                             osm_match_type =
                               (case d of None \<Rightarrow> None | Some r \<Rightarrow> det_osm_match_type r)\<rparr>
                 else None)
         | _ \<Rightarrow> None))"

definition query_candidates ::
  "database \<Rightarrow> real \<times> real \<times> real \<times> real \<Rightarrow> real \<Rightarrow> scan_row list" where
  "query_candidates db bbox min_score =
     List.map_filter (query_row db bbox min_score) (inmuebles_raw db)"

text \<open>
  What the monitor reads of its configuration, \<open>self.config.scoring\<close>: the detection
  threshold and the \<open>statuses\<close> table. The module it is imported from is not among
  the sources, so the values are parameters.
\<close>

record config_scoring =
  detection_threshold :: real
  statuses_confirmed :: string
  statuses_detected :: string
  statuses_monitoring :: string

text \<open>
  What a scan reads of the monitor: the configuration; the keyword lists of the module
  of its scoring engine \<open>self.scorer\<close>; and the proximity lookup
  \<open>self.overpass.find_churches_nearby\<close>.
\<close>

record region_monitor =
  config :: config_scoring
  scorer_keywords :: keyword_lists
  overpass :: "real \<Rightarrow> real \<Rightarrow> nat option \<Rightarrow> OSMChurch list"

text \<open>
  \<open>RegionMonitor._score_inmueble\<close>. It hands \<open>score\<close> a dictionary under the keys
  \<open>titulo\<close>, \<open>descripcion\<close>, \<open>tipo\<close>, \<open>superficie\<close>, \<open>caracteristicas_basicas\<close>,
  \<open>caracteristicas_extras\<close> (the empty list), \<open>lat\<close>, \<open>lon\<close> and \<open>geo_type\<close>. Of the
  keys that \<open>score\<close> reads, the dictionary holds \<open>caracteristicas_extras\<close> alone.
\<close>

definition score_inmueble ::
  "keyword_lists \<Rightarrow> scan_row \<Rightarrow> py_error + real \<times> evidence list" where
  "score_inmueble kws inmueble_row =
     score kws
       \<lparr>titulo_completo = None, caracteristicas_extras = Some [],
        latitud = None, longitud = None, m2_construidos = None\<rparr>"

text \<open>\<open>RegionMonitor._get_status_for_score\<close>.\<close>

definition get_status_for_score :: "config_scoring \<Rightarrow> real \<Rightarrow> string" where
  "get_status_for_score cfg sc =
     (if sc = 100 then statuses_confirmed cfg
      else if sc \<ge> detection_threshold cfg then statuses_detected cfg
      else if sc > 0 then statuses_monitoring cfg
      else ''no_detectado'')"

text \<open>\<open>float(row.precio) if row.precio else None\<close>: a price of 0 counts as none.\<close>

definition precio_of :: "scan_row \<Rightarrow> real option" where
  "precio_of inmueble_row =
     (case row_precio inmueble_row of None \<Rightarrow> None | Some p \<Rightarrow> if p = 0 then None else Some p)"

text \<open>
  \<open>RegionMonitor._save_detection\<close>: an insert keyed by the listing id that, on conflict,
  updates the score, the status and the evidence only.
\<close>

definition save_detection ::
  "scan_row \<Rightarrow> real \<Rightarrow> evidence list \<Rightarrow> string \<Rightarrow> database \<Rightarrow> database" where
  "save_detection inmueble_row sc evs st db =
     db\<lparr>detecciones := (detecciones db)(row_id inmueble_row \<mapsto>
          (case detecciones db (row_id inmueble_row) of
             None \<Rightarrow>
               \<lparr>det_score = Some sc, det_status = Some st, det_evidences = Some evs,
                det_osm_match_id = None, det_osm_match_type = None,
                precio_inicial = precio_of inmueble_row,
                precio_actual = precio_of inmueble_row\<rparr>
           | Some d \<Rightarrow>
               d\<lparr>det_score := Some sc, det_status := Some st, det_evidences := Some evs\<rparr>))\<rparr>"

text \<open>
  \<open>RegionMonitor._save_alerts\<close>: each alert is inserted unless the table already holds
  one with its region, portal and listing id.
\<close>

definition same_alert :: "RegionAlert \<Rightarrow> RegionAlert \<Rightarrow> bool" where
  "same_alert a b \<longleftrightarrow>
     region_id a = region_id b \<and> portal a = portal b \<and> inmueble_id a = inmueble_id b"

definition insert_alert :: "RegionAlert \<Rightarrow> RegionAlert list \<Rightarrow> RegionAlert list" where
  "insert_alert a stored = (if list_ex (same_alert a) stored then stored else stored @ [a])"

definition save_alerts :: "RegionAlert list \<Rightarrow> database \<Rightarrow> database" where
  "save_alerts alerts db = db\<lparr>region_alerts := fold insert_alert alerts (region_alerts db)\<rparr>"

text \<open>\<open>RegionMonitor._update_region_last_checked\<close>.\<close>

definition update_region_last_checked :: "int \<Rightarrow> nat \<Rightarrow> database \<Rightarrow> database" where
  "update_region_last_checked rid now db =
     (case geo_regions db rid of
        None \<Rightarrow> db
      | Some r \<Rightarrow> db\<lparr>geo_regions := (geo_regions db)(rid \<mapsto> r\<lparr>last_checked := Some now\<rparr>)\<rparr>)"

text \<open>
  \<open>RegionMonitor._get_region\<close>: it selects the circle's columns only, so the region it
  builds has no \<open>coordinates\<close>; \<open>RegionShape(row.shape_type)\<close> raises on a value that
  names no shape.
\<close>

definition get_region :: "database \<Rightarrow> int \<Rightarrow> py_error + GeoRegion option" where
  "get_region db rid =
     (case geo_regions db rid of
        None \<Rightarrow> Inr None
      | Some r \<Rightarrow>
          (case shape_type r of
             None \<Rightarrow> Inl ValueError
           | Some shape \<Rightarrow>
               Inr (Some (r\<lparr>coordinates := None, osm_relation_id := None,
                            admin_level := None, created_by := None\<rparr>))))"

text \<open>
  The distance to the centre that \<open>scan_region\<close> attaches to an alert:
  \<open>self._calculate_distance(...) if region.center_lat else None\<close>. The test is the truth
  value of \<open>center_lat\<close>, which is false for \<open>None\<close> and for 0.0.
\<close>

definition distance_to_center :: "GeoRegion \<Rightarrow> scan_row \<Rightarrow> py_error + real option" where
  "distance_to_center region inmueble_row =
     (case center_lat region of
        None \<Rightarrow> Inr None
      | Some clat \<Rightarrow>
          if clat = 0 then Inr None
          else (case center_lon region of
                  None \<Rightarrow> Inl TypeError
                | Some clon \<Rightarrow>
                    (case calculate_distance clat clon (row_lat inmueble_row)
                            (row_lon inmueble_row) of
                       Inl err \<Rightarrow> Inl err
                     | Inr d \<Rightarrow> Inr (Some d))))"

text \<open>
  The score, evidence and status of a candidate, and the store after it: computed and,
  when the score reaches the threshold, saved for a row with no stored score; taken
  from the row otherwise. An exception of the scoring engine leaves the store as it is.
\<close>

definition score_row ::
  "region_monitor \<Rightarrow> scan_row \<Rightarrow> database
     \<Rightarrow> (py_error + real \<times> evidence list option \<times> string option) \<times> database" where
  "score_row mon inmueble_row db =
     (case row_score inmueble_row of
        None \<Rightarrow>
          (case score_inmueble (scorer_keywords mon) inmueble_row of
             Inl err \<Rightarrow> (Inl err, db)
           | Inr (sc, evs) \<Rightarrow>
               (let st = get_status_for_score (config mon) sc
                in (Inr (sc, Some evs, Some st),
                    if sc \<ge> detection_threshold (config mon)
                    then save_detection inmueble_row sc evs st db
                    else db)))
      | Some sc \<Rightarrow> (Inr (sc, evidences inmueble_row, row_status inmueble_row), db))"

text \<open>
  The alert of a candidate. The proximity lookup runs when \<open>row.lat and row.lon\<close> holds,
  that is when neither is 0, with a radius of 150 metres.
\<close>

definition make_alert ::
  "region_monitor \<Rightarrow> nat \<Rightarrow> int \<Rightarrow> scan_row \<Rightarrow> real option \<Rightarrow> real \<Rightarrow> string option
     \<Rightarrow> RegionAlert" where
  "make_alert mon now rid inmueble_row to_center sc st =
     (let churches = (if row_lat inmueble_row \<noteq> 0 \<and> row_lon inmueble_row \<noteq> 0
                      then overpass mon (row_lat inmueble_row) (row_lon inmueble_row) (Some 150)
                      else [])
      in \<lparr>alert_ident = None, region_id = rid, inmueble_id = id_portal inmueble_row,
          portal = row_portal inmueble_row, titulo = row_titulo inmueble_row,
          precio = precio_of inmueble_row, alert_score = sc, status = st,
          alert_lat = row_lat inmueble_row, alert_lon = row_lon inmueble_row,
          distance_to_center_m = to_center,
          osm_church_id = (case churches of [] \<Rightarrow> osm_match_id inmueble_row
                           | closest # _ \<Rightarrow> osm_id closest),
          osm_church_name = (case churches of [] \<Rightarrow> None | closest # _ \<Rightarrow> Some (name closest)),
          osm_distance_m = (case churches of [] \<Rightarrow> None | closest # _ \<Rightarrow> Some (distance closest)),
          detected_at = now, notified = False, notified_at = None\<rparr>)"

text \<open>
  The loop \<open>for row in inmuebles\<close> of \<open>scan_region\<close>. An exception ends it; what was
  saved before stays saved, since \<open>_save_detection\<close> commits.
\<close>

fun scan_rows ::
  "region_monitor \<Rightarrow> nat \<Rightarrow> int \<Rightarrow> GeoRegion \<Rightarrow> scan_row list \<Rightarrow> database
     \<Rightarrow> (py_error + RegionAlert list) \<times> database" where
  "scan_rows mon now rid region [] db = (Inr [], db)"
| "scan_rows mon now rid region (inmueble_row # rest) db =
     (case contains_point region (row_lat inmueble_row) (row_lon inmueble_row) of
        Inl err \<Rightarrow> (Inl err, db)
      | Inr False \<Rightarrow> scan_rows mon now rid region rest db
      | Inr True \<Rightarrow>
          (case distance_to_center region inmueble_row of
             Inl err \<Rightarrow> (Inl err, db)
           | Inr to_center \<Rightarrow>
               (case score_row mon inmueble_row db of
                  (Inl err, db1) \<Rightarrow> (Inl err, db1)
                | (Inr (sc, evs, st), db1) \<Rightarrow>
                    (case scan_rows mon now rid region rest db1 of
                       (Inl err, db2) \<Rightarrow> (Inl err, db2)
                     | (Inr alerts, db2) \<Rightarrow>
                         (Inr (make_alert mon now rid inmueble_row to_center sc st # alerts),
                          db2)))))"

text \<open>
  \<open>RegionMonitor.scan_region\<close>, at the time \<open>now\<close>: the alerts it returns, or the
  exception it raises, and the store it leaves.
\<close>

definition scan_region ::
  "region_monitor \<Rightarrow> nat \<Rightarrow> int \<Rightarrow> database \<Rightarrow> (py_error + RegionAlert list) \<times> database" where
  "scan_region mon now rid db =
     (case get_region db rid of
        Inl err \<Rightarrow> (Inl err, db)
      | Inr None \<Rightarrow> (Inl ValueError, db)
      | Inr (Some region) \<Rightarrow>
          (case get_bounding_box region of
             Inl err \<Rightarrow> (Inl err, db)
           | Inr None \<Rightarrow> (Inl ValueError, db)
           | Inr (Some bbox) \<Rightarrow>
               (case scan_rows mon now rid region
                       (query_candidates db bbox (detection_threshold (config mon))) db of
                  (Inl err, db1) \<Rightarrow> (Inl err, db1)
                | (Inr alerts, db1) \<Rightarrow>
                    (Inr alerts,
                     update_region_last_checked rid now
                       (if alerts = [] then db1 else save_alerts alerts db1)))))"

section \<open>Sample data\<close>

subsection \<open>An Overpass reply\<close>

text \<open>
  An Overpass reply with two elements, listed the farther one first: an unnamed way
  whose centre is the antipode of the query point (0, 0) on the equator, and a named
  node at the query point itself.
\<close>

definition sample_far :: element where
  "sample_far = \<lparr>el_type = Some ''way'', el_id = Some 1, el_tags = None,
      el_lat = None, el_lon = None, el_center = Some (Some 0, Some 180)\<rparr>"

definition sample_near :: element where
  "sample_near = \<lparr>el_type = Some ''node'', el_id = Some 2,
      el_tags = Some [''name'' \<mapsto> ''San Gil''],
      el_lat = Some 0, el_lon = Some 0, el_center = None\<rparr>"

definition sample_reply :: "overpass_request \<Rightarrow> py_error + response" where
  "sample_reply q = Inr \<lparr>status_code = 200, json_body = Some (Some [sample_far, sample_near])\<rparr>"

subsection \<open>Listings to score\<close>

text \<open>
  Keyword lists, and three listings: a garage, a former church of 400 square metres
  with high ceilings, and a flat with coordinates and no keyword.
\<close>

definition sample_keywords :: keyword_lists where
  "sample_keywords =
     \<lparr>POSITIVE = [''retablo'', ''campanario''], NEGATIVE = [''garaje''],
      EXPLICIT = [''iglesia'', ''convento'']\<rparr>"

definition sample_garaje :: inmueble where
  "sample_garaje =
     \<lparr>titulo_completo = Some ''Garaje en venta'', caracteristicas_extras = None,
      latitud = None, longitud = None, m2_construidos = None\<rparr>"

definition sample_iglesia :: inmueble where
  "sample_iglesia =
     \<lparr>titulo_completo = Some ''Antigua iglesia'',
      caracteristicas_extras = Some [''Techos altos''],
      latitud = None, longitud = None, m2_construidos = Some 400\<rparr>"

definition sample_piso :: inmueble where
  "sample_piso =
     \<lparr>titulo_completo = Some ''Piso moderno'', caracteristicas_extras = Some [],
      latitud = Some 40.5, longitud = Some (- 3.5), m2_construidos = Some 60\<rparr>"

subsection \<open>A polygon\<close>

text \<open>
  A polygon region: the square with corners (0, 0), (0, 2), (2, 2) and (2, 0), whose
  ring holds the point (1, 1) strictly inside.
\<close>

definition sample_polygon :: GeoRegion where
  "sample_polygon =
     \<lparr>region_ident = Some 3, region_name = Some ''Casco antiguo'',
      shape_type = Some POLYGON, center_lat = None, center_lon = None, radius_m = None,
      coordinates = Some [(0, 0), (0, 2), (2, 2), (2, 0)],
      osm_relation_id = None, admin_level = None, address = None, description = None,
      created_at = None, created_by = None, is_active = True, last_checked = None\<rparr>"

subsection \<open>A scan\<close>

text \<open>
  A scan scenario. The configuration has the threshold 50 and the status names of the
  specification. The region is a circle of 500 metres around (60, 10); a second circle
  lies on the equator, around (0, 10). Two active listings stand at the centre of the
  first circle and one at the centre of the second.
\<close>

definition sample_config :: config_scoring where
  "sample_config =
     \<lparr>detection_threshold = 50, statuses_confirmed = ''confirmed'',
      statuses_detected = ''detected'', statuses_monitoring = ''monitoring''\<rparr>"

definition sample_circle :: GeoRegion where
  "sample_circle =
     \<lparr>region_ident = Some 1, region_name = Some ''Catedral'',
      shape_type = Some CIRCLE, center_lat = Some 60, center_lon = Some 10,
      radius_m = Some 500, coordinates = None,
      osm_relation_id = None, admin_level = None, address = None, description = None,
      created_at = None, created_by = None, is_active = True, last_checked = None\<rparr>"

definition sample_equator :: GeoRegion where
  "sample_equator =
     \<lparr>region_ident = Some 2, region_name = Some ''Ecuador'',
      shape_type = Some CIRCLE, center_lat = Some 0, center_lon = Some 10,
      radius_m = Some 500, coordinates = None,
      osm_relation_id = None, admin_level = None, address = None, description = None,
      created_at = None, created_by = None, is_active = True, last_checked = None\<rparr>"

definition sample_listing :: "int \<Rightarrow> string \<Rightarrow> real \<Rightarrow> inmueble_raw" where
  "sample_listing ident code la =
     \<lparr>raw_id = ident, raw_portal = ''idealista'', raw_id_portal = code,
      raw_titulo = Some ''Local en venta'', raw_descripcion = None,
      raw_precio = Some 250000, raw_lat = Some la, raw_lon = Some 10,
      raw_geo_type = None, raw_caracteristicas = None, raw_is_active = True\<rparr>"

definition sample_detection :: "real \<Rightarrow> string \<Rightarrow> deteccion" where
  "sample_detection sc st =
     \<lparr>det_score = Some sc, det_status = Some st, det_evidences = Some [],
      det_osm_match_id = None, det_osm_match_type = None,
      precio_inicial = Some 250000, precio_actual = Some 250000\<rparr>"

text \<open>The store with no detection yet, and the store with the scores 55 and 30.\<close>

definition sample_db :: database where
  "sample_db =
     \<lparr>inmuebles_raw = [sample_listing 1 ''A'' 60, sample_listing 2 ''B'' 60,
                        sample_listing 3 ''C'' 0],
      detecciones = Map.empty,
      geo_regions = [1 \<mapsto> sample_circle, 2 \<mapsto> sample_equator],
      region_alerts = []\<rparr>"

definition sample_db_scored :: database where
  "sample_db_scored =
     sample_db\<lparr>detecciones := [1 \<mapsto> sample_detection 55 ''detected'',
                                 2 \<mapsto> sample_detection 30 ''monitoring'']\<rparr>"

text \<open>A monitor whose proximity lookup finds no church.\<close>

definition no_churches :: "real \<Rightarrow> real \<Rightarrow> nat option \<Rightarrow> OSMChurch list" where
  "no_churches la lo radius = []"

definition sample_monitor :: region_monitor where
  "sample_monitor =
     \<lparr>config = sample_config, scorer_keywords = sample_keywords, overpass = no_churches\<rparr>"

text \<open>
  The row the query returns for a sample listing, with its stored score and status if
  it has any.
\<close>

definition sample_row :: "int \<Rightarrow> string \<Rightarrow> real \<Rightarrow> (real \<times> string) option \<Rightarrow> scan_row" where
  "sample_row ident code la stored =
     \<lparr>row_id = ident, row_portal = ''idealista'', id_portal = code,
      row_titulo = Some ''Local en venta'', descripcion = None,
      row_precio = Some 250000, row_lat = la, row_lon = 10, geo_type = None,
      caracteristicas = None,
      row_score = (case stored of None \<Rightarrow> None | Some (sc, st) \<Rightarrow> Some sc),
      row_status = (case stored of None \<Rightarrow> None | Some (sc, st) \<Rightarrow> Some st),
      evidences = (case stored of None \<Rightarrow> None | Some (sc, st) \<Rightarrow> Some []),
      osm_match_id = None, osm_match_type = None\<rparr>"

section \<open>Properties of the match resolver\<close>

lemma lower_Nil: "lower [] = []"
  by simp

text \<open>
  Claim C9. For every non-empty candidate list, a listing whose title is absent or the
  empty string is matched with confidence 95 to the first candidate of the list,
  whatever that candidate's name and distance are: the empty title is contained in
  every candidate name.
\<close>

theorem find_match_empty_title:
  assumes "osm_churches \<noteq> []"
    and "inmueble_titulo = None \<or> inmueble_titulo = Some []"
  shows "find_match inmueble_titulo osm_churches =
           Some \<lparr>osm_church = hd osm_churches, confidence = 95\<rparr>"
proof -
  from assms(1) obtain c cs where cs: "osm_churches = c # cs"
    by (cases osm_churches) auto
  from assms(2) have t: "lower (case inmueble_titulo of None \<Rightarrow> [] | Some t \<Rightarrow> t) = []"
    by (auto simp: lower_Nil)
  have "name_match [] (c # cs) = Some c"
    by simp
  with cs t show ?thesis
    by (simp add: find_match_def)
qed

theorem find_match_empty_title_witness:
  "[\<lparr>osm_id = Some 7, osm_type = Some ''node'', name = ''San Gil'',
      lat = 1, lon = 2, distance = 900\<rparr>] \<noteq> []
   \<and> find_match (Some [])
         [\<lparr>osm_id = Some 7, osm_type = Some ''node'', name = ''San Gil'',
            lat = 1, lon = 2, distance = 900\<rparr>]
       = Some \<lparr>osm_church =
                 \<lparr>osm_id = Some 7, osm_type = Some ''node'', name = ''San Gil'',
                    lat = 1, lon = 2, distance = 900\<rparr>,
               confidence = 95\<rparr>"
  using find_match_empty_title
    [of "[\<lparr>osm_id = Some 7, osm_type = Some ''node'', name = ''San Gil'',
            lat = 1, lon = 2, distance = 900\<rparr>]" "Some []"]
  by simp

section \<open>Properties of the OSM proximity client\<close>


lemma parse_elements_keeps:
  "parse_elements qlat qlon es = Inr cs \<Longrightarrow> e \<in> set es \<Longrightarrow> element_coords e \<noteq> None \<Longrightarrow>
   \<exists>c\<in>set cs. osm_id c = el_id e \<and> osm_type c = el_type e \<and> name c = element_name e"
  by (induction es arbitrary: cs)
     (auto split: option.splits sum.splits prod.splits)

lemma parse_elements_origin:
  "parse_elements qlat qlon es = Inr cs \<Longrightarrow> c \<in> set cs \<Longrightarrow>
   \<exists>e\<in>set es. osm_id c = el_id e \<and> osm_type c = el_type e \<and> name c = element_name e"
  by (induction es arbitrary: cs)
     (auto split: option.splits sum.splits prod.splits)


lemma find_churches_nearby_Inr:
  "find_churches_nearby_try cfg post qlat qlon radius = Inr cs \<Longrightarrow>
   find_churches_nearby cfg post qlat qlon radius = cs"
  by (simp add: find_churches_nearby_def)

lemma find_churches_nearby_try_Inr:
  assumes "find_churches_nearby_try cfg post qlat qlon radius = Inr cs"
  obtains resp data parsed where
    "post (build_query cfg qlat qlon radius) = Inr resp"
    "raise_for_status resp = Inr ()"
    "json resp = Inr data"
    "parse_elements qlat qlon (case data of None \<Rightarrow> [] | Some els \<Rightarrow> els) = Inr parsed"
    "cs = sort_key distance parsed"
  using assms
  by (auto simp: find_churches_nearby_try_def split: sum.splits)


lemma haversine_distance_same: "haversine_distance a b a b = Inr 0"
  by (simp add: haversine_distance_def py_sqrt_def py_asin_def)

lemma haversine_distance_antipode: "haversine_distance 0 0 0 180 = Inr (6371000 * pi)"
  by (simp add: haversine_distance_def radians_def py_sqrt_def py_asin_def)

lemma sample_reply_try:
  "find_churches_nearby_try config_osm_default sample_reply 0 0 (Some 200) =
     Inr [\<lparr>osm_id = Some 2, osm_type = Some ''node'', name = ''San Gil'',
            lat = 0, lon = 0, distance = 0\<rparr>,
          \<lparr>osm_id = Some 1, osm_type = Some ''way'', name = ''Sin nombre'',
            lat = 0, lon = 180, distance = 6371000 * pi\<rparr>]"
  by (simp add: not_le find_churches_nearby_try_def sample_reply_def
      raise_for_status_def json_def sample_far_def sample_near_def element_coords_def
      element_name_def haversine_distance_same haversine_distance_antipode)

lemma sample_reply_result:
  "find_churches_nearby config_osm_default sample_reply 0 0 (Some 200) =
     [\<lparr>osm_id = Some 2, osm_type = Some ''node'', name = ''San Gil'',
        lat = 0, lon = 0, distance = 0\<rparr>,
      \<lparr>osm_id = Some 1, osm_type = Some ''way'', name = ''Sin nombre'',
        lat = 0, lon = 180, distance = 6371000 * pi\<rparr>]"
  by (simp add: find_churches_nearby_def sample_reply_try)


text \<open>Accented capitals are lowered: the upper-case and lower-case forms of a title.\<close>

lemma lower_accents:
  "lower (''ABAD'' @ [CHR 0xC3, CHR 0x8D] @ ''A EN VENTA'') = ''abad'' @ [CHR 0xC3, CHR 0xAD] @ ''a en venta''"
  by code_simp

lemma lower_placeholder: "lower ''Sin nombre'' = ''sin nombre''"
  by code_simp

lemma element_name_no_tag:
  "(case el_tags e of None \<Rightarrow> None | Some tags \<Rightarrow> tags ''name'') = None \<Longrightarrow>
   element_name e = ''Sin nombre''"
  by (auto simp: element_name_def split: option.splits)

lemma name_match_append:
  "name_match t pre = None \<Longrightarrow> name_match t (pre @ cs) = name_match t cs"
  by (induction pre) (auto simp: Let_def split: if_splits)

lemma name_match_Some_in:
  "name_match t cs = Some c \<Longrightarrow>
   c \<in> set cs \<and> (sublist (lower (name c)) t \<or> sublist t (lower (name c)))"
  by (induction cs) (auto simp: Let_def split: if_splits)

lemma find_match_exact_iff:
  "find_match (Some title) cs = Some \<lparr>osm_church = c, confidence = 95\<rparr>
     \<longleftrightarrow> name_match (lower title) cs = Some c"
  by (cases cs) (auto simp: find_match_def Let_def split: option.splits)

text \<open>
  Claim C10. Every candidate the proximity client returns carries a name: the name tag of
  the element it was built from or, for an element with no name tag, the placeholder
  \<open>''Sin nombre''\<close>; an unnamed element with coordinates is not dropped. The match
  resolver puts the placeholder through its containment comparison like any name: at
  any place of the candidate list, when no earlier candidate matches, the candidate
  named by the placeholder is the name match exactly when the lowered title holds
  \<open>''sin nombre''\<close> or is held by it, and the comparison passes on to the later
  candidates otherwise. The resolver answers with confidence 95 exactly for the name
  match.
\<close>

theorem unnamed_candidates_get_placeholder:
  assumes ok: "find_churches_nearby_try cfg post qlat qlon radius = Inr cs"
    and reply: "post (build_query cfg qlat qlon radius) = Inr resp"
    and body: "json_body resp = Some (Some els)"
  shows "(\<forall>c\<in>set (find_churches_nearby cfg post qlat qlon radius).
            \<exists>e\<in>set els. osm_id c = el_id e \<and> name c = element_name e)
       \<and> (\<forall>e\<in>set els. element_coords e \<noteq> None
              \<and> (case el_tags e of None \<Rightarrow> None | Some tags \<Rightarrow> tags ''name'') = None
            \<longrightarrow> (\<exists>c\<in>set (find_churches_nearby cfg post qlat qlon radius).
                   osm_id c = el_id e \<and> name c = ''Sin nombre''))
       \<and> (\<forall>pre c rest title. name c = ''Sin nombre''
              \<and> name_match (lower title) pre = None
            \<longrightarrow> name_match (lower title) (pre @ c # rest)
                  = (if sublist ''sin nombre'' (lower title)
                        \<or> sublist (lower title) ''sin nombre''
                     then Some c
                     else name_match (lower title) rest))
       \<and> (\<forall>title churches c.
             find_match (Some title) churches = Some \<lparr>osm_church = c, confidence = 95\<rparr>
               \<longleftrightarrow> name_match (lower title) churches = Some c)"
proof -
  from ok obtain resp' data parsed where
    r: "post (build_query cfg qlat qlon radius) = Inr resp'"
    and j: "json resp' = Inr data"
    and p: "parse_elements qlat qlon (case data of None \<Rightarrow> [] | Some els \<Rightarrow> els) = Inr parsed"
    and cs: "cs = sort_key distance parsed"
    by (elim find_churches_nearby_try_Inr)
  from r reply have "resp' = resp" by simp
  with j body have "data = Some els" by (simp add: json_def)
  with p have p': "parse_elements qlat qlon els = Inr parsed" by simp
  have res: "set (find_churches_nearby cfg post qlat qlon radius) = set parsed"
    using cs by (simp add: find_churches_nearby_Inr [OF ok])
  have one: "\<forall>c\<in>set (find_churches_nearby cfg post qlat qlon radius).
            \<exists>e\<in>set els. osm_id c = el_id e \<and> name c = element_name e"
    using parse_elements_origin [OF p'] by (auto simp: res)
  have two: "\<forall>e\<in>set els. element_coords e \<noteq> None
              \<and> (case el_tags e of None \<Rightarrow> None | Some tags \<Rightarrow> tags ''name'') = None
            \<longrightarrow> (\<exists>c\<in>set (find_churches_nearby cfg post qlat qlon radius).
                   osm_id c = el_id e \<and> name c = ''Sin nombre'')"
  proof (intro ballI impI)
    fix e assume e: "e \<in> set els"
      and h: "element_coords e \<noteq> None
              \<and> (case el_tags e of None \<Rightarrow> None | Some tags \<Rightarrow> tags ''name'') = None"
    from parse_elements_keeps [OF p' e] h obtain c where
      "c \<in> set parsed" "osm_id c = el_id e" "name c = element_name e"
      by auto
    with h show "\<exists>c\<in>set (find_churches_nearby cfg post qlat qlon radius).
                   osm_id c = el_id e \<and> name c = ''Sin nombre''"
      by (auto simp: res element_name_no_tag)
  qed
  have three: "\<forall>pre c rest title. name c = ''Sin nombre''
              \<and> name_match (lower title) pre = None
            \<longrightarrow> name_match (lower title) (pre @ c # rest)
                  = (if sublist ''sin nombre'' (lower title)
                        \<or> sublist (lower title) ''sin nombre''
                     then Some c
                     else name_match (lower title) rest)"
    by (simp add: name_match_append Let_def lower_placeholder del: lower.simps)
  have four: "\<forall>title churches c.
             find_match (Some title) churches = Some \<lparr>osm_church = c, confidence = 95\<rparr>
               \<longleftrightarrow> name_match (lower title) churches = Some c"
    by (simp add: find_match_exact_iff)
  from one two three four show ?thesis by blast
qed

theorem unnamed_candidates_get_placeholder_witness:
  "find_churches_nearby config_osm_default sample_reply 0 0 (Some 200)
     = [\<lparr>osm_id = Some 2, osm_type = Some ''node'', name = ''San Gil'',
          lat = 0, lon = 0, distance = 0\<rparr>,
        \<lparr>osm_id = Some 1, osm_type = Some ''way'', name = ''Sin nombre'',
          lat = 0, lon = 180, distance = 6371000 * pi\<rparr>]
   \<and> element_coords sample_far \<noteq> None
   \<and> (case el_tags sample_far of None \<Rightarrow> None | Some tags \<Rightarrow> tags ''name'') = None
   \<and> (\<exists>c\<in>set (find_churches_nearby config_osm_default sample_reply 0 0 (Some 200)).
         osm_id c = Some 1 \<and> name c = ''Sin nombre'')
   \<and> find_match (Some ''Local sin nombre en venta'')
        (find_churches_nearby config_osm_default sample_reply 0 0 (Some 200))
      = Some \<lparr>osm_church =
                \<lparr>osm_id = Some 1, osm_type = Some ''way'', name = ''Sin nombre'',
                   lat = 0, lon = 180, distance = 6371000 * pi\<rparr>,
              confidence = 95\<rparr>
   \<and> find_match (Some ''Piso reformado'')
        (find_churches_nearby config_osm_default sample_reply 0 0 (Some 200))
      = Some \<lparr>osm_church =
                \<lparr>osm_id = Some 2, osm_type = Some ''node'', name = ''San Gil'',
                   lat = 0, lon = 0, distance = 0\<rparr>,
              confidence = 80\<rparr>"
proof -
  let ?near = "\<lparr>osm_id = Some 2, osm_type = Some ''node'', name = ''San Gil'',
          lat = 0, lon = 0, distance = 0\<rparr>"
  let ?far = "\<lparr>osm_id = Some 1, osm_type = Some ''way'', name = ''Sin nombre'',
          lat = 0, lon = 180, distance = 6371000 * pi\<rparr>"
  have ok: "find_churches_nearby_try config_osm_default sample_reply 0 0 (Some 200)
     = Inr (find_churches_nearby config_osm_default sample_reply 0 0 (Some 200))"
    by (simp add: sample_reply_try sample_reply_result)
  have reply: "sample_reply (build_query config_osm_default 0 0 (Some 200))
     = Inr \<lparr>status_code = 200, json_body = Some (Some [sample_far, sample_near])\<rparr>"
    by (simp add: sample_reply_def)
  have coords: "element_coords sample_far \<noteq> None"
    by (simp add: element_coords_def sample_far_def)
  have notag: "(case el_tags sample_far of None \<Rightarrow> None | Some tags \<Rightarrow> tags ''name'') = None"
    by (simp add: sample_far_def)
  have t1: "sublist ''sin nombre'' (lower ''Local sin nombre en venta'')"
    by code_simp
  have t2: "\<not> sublist ''sin nombre'' (lower ''Piso reformado'')
     \<and> \<not> sublist (lower ''Piso reformado'') ''sin nombre''"
    by code_simp
  have n1: "\<not> sublist (lower ''San Gil'') (lower ''Local sin nombre en venta'')
     \<and> \<not> sublist (lower ''Local sin nombre en venta'') (lower ''San Gil'')"
    by code_simp
  have n2: "\<not> sublist (lower ''San Gil'') (lower ''Piso reformado'')
     \<and> \<not> sublist (lower ''Piso reformado'') (lower ''San Gil'')"
    by code_simp
  have p1: "name_match (lower ''Local sin nombre en venta'') [?near] = None"
    using n1 by (simp add: Let_def del: lower.simps)
  have p2: "name_match (lower ''Piso reformado'') [?near] = None"
    using n2 by (simp add: Let_def del: lower.simps)
  note t = unnamed_candidates_get_placeholder [OF ok reply, of "[sample_far, sample_near]"]
  from t coords notag have ex: "\<exists>c\<in>set (find_churches_nearby config_osm_default sample_reply 0 0 (Some 200)).
         osm_id c = el_id sample_far \<and> name c = ''Sin nombre''"
    by simp
  from t have three: "\<And>pre c rest title. name c = ''Sin nombre''
              \<Longrightarrow> name_match (lower title) pre = None
            \<Longrightarrow> name_match (lower title) (pre @ c # rest)
                  = (if sublist ''sin nombre'' (lower title)
                        \<or> sublist (lower title) ''sin nombre''
                     then Some c
                     else name_match (lower title) rest)"
    and four: "\<And>title churches c.
             find_match (Some title) churches = Some \<lparr>osm_church = c, confidence = 95\<rparr>
               \<longleftrightarrow> name_match (lower title) churches = Some c"
    by simp_all
  have m1: "name_match (lower ''Local sin nombre en venta'') [?near, ?far] = Some ?far"
    using three [of ?far "''Local sin nombre en venta''" "[?near]" "[]", OF _ p1] t1
    by (simp del: lower.simps name_match.simps)
  have m2: "name_match (lower ''Piso reformado'') [?near, ?far] = None"
    using three [of ?far "''Piso reformado''" "[?near]" "[]", OF _ p2] t2
    by (simp del: lower.simps)
  have f1: "find_match (Some ''Local sin nombre en venta'') [?near, ?far]
      = Some \<lparr>osm_church = ?far, confidence = 95\<rparr>"
    using four [of "''Local sin nombre en venta''" "[?near, ?far]" ?far] m1 by blast
  have f2: "find_match (Some ''Piso reformado'') [?near, ?far]
      = Some \<lparr>osm_church = ?near, confidence = 80\<rparr>"
    using m2 by (simp add: find_match_def Let_def del: lower.simps name_match.simps)
  from ex coords notag f1 f2 show ?thesis
    by (simp add: sample_reply_result sample_far_def del: lower.simps name_match.simps)
qed

section \<open>Properties of the monitor scheduler\<close>

lemma monitor_inv_init: "monitor_inv monitor_init"
  by (simp add: monitor_inv_def monitor_init_def)

lemma monitor_inv_start:
  assumes "monitor_inv s"
  shows "monitor_inv (start_monitoring rid interval_hours s)"
proof (cases "rid \<in> dom (active_monitors s)")
  case True
  with assms show ?thesis by (simp add: start_monitoring_def)
next
  case False
  with assms show ?thesis
    unfolding monitor_inv_def start_monitoring_def
    by (auto simp: domIff)
qed

lemma handle_inj:
  assumes "distinct (map handle ts)" "t \<in> set ts" "u \<in> set ts" "handle t = handle u"
  shows "t = u"
  using assms by (meson distinct_map inj_onD)

lemma monitor_inv_stop:
  assumes inv: "monitor_inv s"
  shows "monitor_inv (stop_monitoring rid s)"
proof (cases "active_monitors s rid")
  case None
  with assms show ?thesis by (simp add: stop_monitoring_def)
next
  case (Some h)
  from inv have d: "distinct (map handle (running s))"
    and own: "\<And>t. t \<in> set (running s) \<Longrightarrow>
                handle t < next_handle s \<and> active_monitors s (task_region_id t) = Some (handle t)"
    and rec: "\<And>r k. active_monitors s r = Some k \<Longrightarrow>
                \<exists>t\<in>set (running s). handle t = k \<and> task_region_id t = r"
    by (auto simp: monitor_inv_def)
  let ?s = "stop_monitoring rid s"
  have run: "running ?s = filter (\<lambda>t. handle t \<noteq> h) (running s)"
    and act: "active_monitors ?s = (active_monitors s)(rid := None)"
    and nxt: "next_handle ?s = next_handle s"
    using Some by (simp_all add: stop_monitoring_def)
  have 1: "distinct (map handle (running ?s))"
    using d by (simp add: run distinct_map_filter)
  have 2: "\<forall>t\<in>set (running ?s). handle t < next_handle ?s
            \<and> active_monitors ?s (task_region_id t) = Some (handle t)"
  proof
    fix t assume "t \<in> set (running ?s)"
    then have t: "t \<in> set (running s)" and ne: "handle t \<noteq> h"
      by (simp_all add: run)
    from own [OF t] Some ne have "task_region_id t \<noteq> rid"
      by auto
    with own [OF t] show "handle t < next_handle ?s
            \<and> active_monitors ?s (task_region_id t) = Some (handle t)"
      by (simp add: act nxt)
  qed
  have 3: "\<forall>r k. active_monitors ?s r = Some k \<longrightarrow>
            (\<exists>t\<in>set (running ?s). handle t = k \<and> task_region_id t = r)"
  proof (intro allI impI)
    fix r k assume a: "active_monitors ?s r = Some k"
    then have r: "r \<noteq> rid" and k: "active_monitors s r = Some k"
      by (auto simp: act split: if_splits)
    from rec [OF k] obtain t where t: "t \<in> set (running s)" "handle t = k" "task_region_id t = r"
      by auto
    from rec [OF Some] obtain u where u: "u \<in> set (running s)" "handle u = h" "task_region_id u = rid"
      by auto
    have "k \<noteq> h"
    proof
      assume "k = h"
      with t u have "t = u" using handle_inj [OF d t(1) u(1)] by simp
      with t u r show False by simp
    qed
    with t show "\<exists>t\<in>set (running ?s). handle t = k \<and> task_region_id t = r"
      by (auto simp: run)
  qed
  from 1 2 3 show ?thesis by (simp add: monitor_inv_def)
qed

lemma reachable_inv: "reachable s \<Longrightarrow> monitor_inv s"
  by (induction rule: reachable.induct)
     (simp_all add: monitor_inv_init monitor_inv_start monitor_inv_stop)

lemma filter_at_most_one:
  assumes "distinct (map handle ts)"
    and "\<And>t. t \<in> set ts \<Longrightarrow> P t \<Longrightarrow> handle t = h"
  shows "length (filter P ts) \<le> 1"
  using assms
proof (induction ts)
  case Nil
  then show ?case by simp
next
  case (Cons t ts)
  show ?case
  proof (cases "P t")
    case True
    have "filter P ts = []"
    proof (rule ccontr)
      assume "filter P ts \<noteq> []"
      then obtain u where u: "u \<in> set ts" "P u"
        by (metis filter_False)
      with Cons.prems(2) [of u] Cons.prems(2) [of t] True have "handle u = handle t"
        by simp
      moreover from Cons.prems(1) have "handle t \<notin> handle ` set ts" by simp
      ultimately show False using u(1) by (metis imageI)
    qed
    with True show ?thesis by simp
  next
    case False
    with Cons show ?thesis by simp
  qed
qed

lemma inv_tasks_for_le:
  assumes "monitor_inv s"
  shows "length (tasks_for r s) \<le> 1"
proof (cases "active_monitors s r")
  case None
  with assms have "tasks_for r s = []"
    by (auto simp: tasks_for_def monitor_inv_def filter_empty_conv)
  then show ?thesis by simp
next
  case (Some h)
  with assms show ?thesis
    unfolding tasks_for_def
    by (intro filter_at_most_one [where h = h]) (auto simp: monitor_inv_def)
qed

lemma inv_tasks_for_active:
  assumes "monitor_inv s" "r \<in> dom (active_monitors s)"
  shows "length (tasks_for r s) = 1"
proof -
  from assms obtain h where "active_monitors s r = Some h" by auto
  with assms(1) have "\<exists>t\<in>set (running s). handle t = h \<and> task_region_id t = r"
    unfolding monitor_inv_def by blast
  then obtain t where "t \<in> set (running s)" "task_region_id t = r"
    by blast
  then have "tasks_for r s \<noteq> []"
    by (auto simp: tasks_for_def filter_empty_conv)
  with inv_tasks_for_le [OF assms(1), of r] show ?thesis
    by (cases "tasks_for r s") auto
qed

lemma inv_tasks_for_idle:
  assumes "monitor_inv s" "r \<notin> dom (active_monitors s)"
  shows "tasks_for r s = []"
  using assms by (auto simp: tasks_for_def monitor_inv_def filter_empty_conv)

lemma start_monitoring_dom:
  "rid \<in> dom (active_monitors (start_monitoring rid interval_hours s))"
  by (auto simp: start_monitoring_def)

lemma stop_monitoring_dom:
  "rid \<notin> dom (active_monitors (stop_monitoring rid s))"
  by (auto simp: stop_monitoring_def split: option.splits)

text \<open>
  Claim C7. In every state the scheduler reaches, at most one loop task exists for a
  region id. \<open>start_monitoring\<close> changes nothing when the region already has a task, so
  two starts in a row leave exactly one task for the region; \<open>stop_monitoring\<close> ends
  the region's task and removes its entry, and changes nothing when there is none.
\<close>

theorem one_task_per_region:
  assumes "reachable s"
  shows "length (tasks_for r s) \<le> 1
    \<and> (r \<in> dom (active_monitors s) \<longrightarrow> start_monitoring r i s = s)
    \<and> start_monitoring r j (start_monitoring r i s) = start_monitoring r i s
    \<and> length (tasks_for r (start_monitoring r j (start_monitoring r i s))) = 1
    \<and> active_monitors (stop_monitoring r s) r = None
    \<and> tasks_for r (stop_monitoring r s) = []
    \<and> (r \<notin> dom (active_monitors s) \<longrightarrow> stop_monitoring r s = s)"
proof -
  have inv: "monitor_inv s" by (rule reachable_inv [OF assms])
  have a: "length (tasks_for r s) \<le> 1" by (rule inv_tasks_for_le [OF inv])
  have b: "r \<in> dom (active_monitors s) \<longrightarrow> start_monitoring r i s = s"
    by (simp add: start_monitoring_def)
  have c: "start_monitoring r j (start_monitoring r i s) = start_monitoring r i s"
    using start_monitoring_dom [of r i s] by (simp add: start_monitoring_def [of r j])
  have d: "length (tasks_for r (start_monitoring r j (start_monitoring r i s))) = 1"
    unfolding c
    by (rule inv_tasks_for_active [OF monitor_inv_start [OF inv] start_monitoring_dom])
  have e: "active_monitors (stop_monitoring r s) r = None"
    using stop_monitoring_dom [of r s] by (simp add: domIff)
  have f: "tasks_for r (stop_monitoring r s) = []"
    by (rule inv_tasks_for_idle [OF monitor_inv_stop [OF inv] stop_monitoring_dom])
  have g: "r \<notin> dom (active_monitors s) \<longrightarrow> stop_monitoring r s = s"
    by (auto simp: stop_monitoring_def domIff)
  from a b c d e f g show ?thesis by blast
qed

theorem one_task_per_region_witness:
  "reachable (start_monitoring 5 24 monitor_init)
   \<and> 5 \<in> dom (active_monitors (start_monitoring 5 24 monitor_init))
   \<and> start_monitoring 5 24 (start_monitoring 5 24 monitor_init) = start_monitoring 5 24 monitor_init
   \<and> length (tasks_for 5 (start_monitoring 5 24 (start_monitoring 5 24 monitor_init))) = 1
   \<and> tasks_for 5 (start_monitoring 5 24 monitor_init)
       = [\<lparr>handle = 0, task_region_id = 5, task_interval_hours = 24\<rparr>]
   \<and> tasks_for 5 (stop_monitoring 5 (start_monitoring 5 24 monitor_init)) = []
   \<and> 7 \<notin> dom (active_monitors (start_monitoring 5 24 monitor_init))
   \<and> stop_monitoring 7 (start_monitoring 5 24 monitor_init) = start_monitoring 5 24 monitor_init"
proof -
  have r: "reachable (start_monitoring 5 24 monitor_init)"
    by (rule reachable.start [OF reachable.init])
  have d5: "5 \<in> dom (active_monitors (start_monitoring 5 24 monitor_init))"
    by (simp add: start_monitoring_def monitor_init_def)
  have d7: "7 \<notin> dom (active_monitors (start_monitoring 5 24 monitor_init))"
    by (simp add: start_monitoring_def monitor_init_def)
  have t: "tasks_for 5 (start_monitoring 5 24 monitor_init)
       = [\<lparr>handle = 0, task_region_id = 5, task_interval_hours = 24\<rparr>]"
    by (simp add: tasks_for_def start_monitoring_def monitor_init_def)
  note a = one_task_per_region [OF reachable.init, of 5 24 24]
  note b = one_task_per_region [OF r, of 5 24 24]
  note c = one_task_per_region [OF r, of 7 24 24]
  from r d5 d7 t a b c show ?thesis by simp
qed

section \<open>Properties of the scoring engine\<close>

lemma evidencias_append_raises: "evidencias_append note = Inl NameError"
  by (simp add: evidencias_append_def evidencias_def)

lemma positive_loop_cases:
  "positive_loop pool t kws sc = Inl NameError \<or> positive_loop pool t kws sc = Inr sc"
  by (induction kws) (auto simp: evidencias_append_raises)

lemma negative_loop_cases:
  "negative_loop pool t kws sc = Inl NameError \<or> negative_loop pool t kws sc = Inr sc"
  by (induction kws) (auto simp: evidencias_append_raises)

lemma positive_loop_match:
  "list_ex (\<lambda>kw. sublist (lower kw) t) kws \<Longrightarrow> positive_loop pool t kws sc = Inl NameError"
  by (induction kws) (auto simp: evidencias_append_raises)

lemma negative_loop_match:
  "list_ex (\<lambda>kw. sublist (lower kw) t) kws \<Longrightarrow> negative_loop pool t kws sc = Inl NameError"
  by (induction kws) (auto simp: evidencias_append_raises)

lemma score_keywords_cases:
  "score_keywords kws t = Inl NameError \<or> score_keywords kws t = Inr 0"
  using positive_loop_cases [of "POSITIVE kws" t "POSITIVE kws" 0]
    negative_loop_cases [of "NEGATIVE kws" t "NEGATIVE kws" 0]
  by (auto simp: score_keywords_def evidencias_append_raises)

lemma score_proximity_cases:
  "score_proximity i sc = Inl AttributeError \<or> score_proximity i sc = Inr sc"
  by (auto simp: score_proximity_def self_overpass_def split: option.splits)

lemma score_m2_cases:
  "score_m2 i sc = Inl NameError \<or> score_m2 i sc = Inr sc"
  by (auto simp: score_m2_def evidencias_append_raises split: option.splits)

lemma score_features_cases:
  "score_features i sc = Inl NameError \<or> score_features i sc = Inr sc"
  by (auto simp: score_features_def Let_def evidencias_append_raises)

text \<open>
  Claim C1, on the code as it stands. \<open>score\<close> returns no score for any listing: every
  run ends in \<open>NameError\<close>, at the first use of \<open>evidencias\<close>, or in \<open>AttributeError\<close>,
  at \<open>self.overpass\<close>. So no score between 0 and 100 is returned.
\<close>

theorem score_never_returns:
  "score kws i = Inl NameError \<or> score kws i = Inl AttributeError"
proof -
  let ?t = "lower (listing_text i)"
  consider "score_keywords kws ?t = Inl NameError" | "score_keywords kws ?t = Inr 0"
    using score_keywords_cases by blast
  then show ?thesis
  proof cases
    case 1
    then show ?thesis by (simp add: score_def)
  next
    case 2
    consider "score_proximity i 0 = Inl AttributeError" | "score_proximity i 0 = Inr 0"
      using score_proximity_cases by blast
    then show ?thesis
    proof cases
      case 1
      with 2 show ?thesis by (simp add: score_def)
    next
      case p: 2
      consider "score_m2 i 0 = Inl NameError" | "score_m2 i 0 = Inr 0"
        using score_m2_cases by blast
      then show ?thesis
      proof cases
        case 1
        with 2 p show ?thesis by (simp add: score_def)
      next
        case m: 2
        consider "score_features i 0 = Inl NameError" | "score_features i 0 = Inr 0"
          using score_features_cases by blast
        then show ?thesis
          using 2 p m by cases (simp_all add: score_def evidencias_def)
      qed
    qed
  qed
qed

text \<open>
  The garage and the former church raise at an append; the flat, which has
  coordinates and no keyword, raises at \<open>self.overpass\<close>.
\<close>

lemma sample_scores:
  "score sample_keywords sample_garaje = Inl NameError"
  "score sample_keywords sample_iglesia = Inl NameError"
  "score sample_keywords sample_piso = Inl AttributeError"
  by (simp_all add: score_def score_keywords_def score_proximity_def self_overpass_def
      evidencias_append_raises sample_keywords_def sample_garaje_def sample_iglesia_def
      sample_piso_def listing_text_def) code_simp+

text \<open>
  Claim C4, on the code as it stands. For every listing whose text holds an explicit
  keyword, \<open>score\<close> sets the score to 100 and raises \<open>NameError\<close> at the append of the
  explicit keyword note: it returns neither the score nor an evidence list.
\<close>

theorem explicit_keyword_raises:
  assumes "list_ex (\<lambda>k. sublist k (lower (listing_text i))) (EXPLICIT kws)"
  shows "score kws i = Inl NameError"
  using assms by (simp add: score_def score_keywords_def evidencias_append_raises)

theorem explicit_keyword_raises_witness:
  "''iglesia'' \<in> set (EXPLICIT sample_keywords)
   \<and> sublist ''iglesia'' (lower (listing_text sample_iglesia))
   \<and> score sample_keywords sample_iglesia = Inl NameError"
proof -
  have k: "''iglesia'' \<in> set (EXPLICIT sample_keywords)"
    by (simp add: sample_keywords_def)
  have s: "sublist ''iglesia'' (lower (listing_text sample_iglesia))"
    by code_simp
  have h: "list_ex (\<lambda>k. sublist k (lower (listing_text sample_iglesia))) (EXPLICIT sample_keywords)"
    by code_simp
  from explicit_keyword_raises [OF h] k s show ?thesis by simp
qed

section \<open>Properties of the region model\<close>

text \<open>
  Claim C3, as amended. For every polygon region and every bounding-box region (every
  region that is not a circle) \<open>contains_point\<close> returns false at every point: the
  source holds no point-in-polygon test, and only circles are tested, by their
  haversine distance to the point.
\<close>

theorem contains_point_only_circles:
  assumes "shape_type region \<noteq> Some CIRCLE"
  shows "contains_point region la lo = Inr False"
  using assms by (simp add: contains_point_def)

theorem contains_point_only_circles_witness:
  "shape_type sample_polygon \<noteq> Some CIRCLE
   \<and> length (case coordinates sample_polygon of None \<Rightarrow> [] | Some cs \<Rightarrow> cs) = 4
   \<and> contains_point sample_polygon 1 1 = Inr False"
proof -
  have h: "shape_type sample_polygon \<noteq> Some CIRCLE"
    by (simp add: sample_polygon_def)
  from contains_point_only_circles [OF h, of 1 1] h show ?thesis
    by (simp add: sample_polygon_def)
qed

text \<open>
  The point (1, 1) lies strictly inside the ring of the square by the ray casting test
  of the specification, and \<open>contains_point\<close> returns false for it.
\<close>

lemma sample_polygon_inside:
  "spec_point_in_ring [(0, 0), (0, 2), (2, 2), (2, 0)] 1 1"
  by (simp add: spec_point_in_ring_def spec_edge_crosses_def)

theorem contains_point_polygon_counterexample:
  "coordinates sample_polygon = Some [(0, 0), (0, 2), (2, 2), (2, 0)]
   \<and> spec_point_in_ring [(0, 0), (0, 2), (2, 2), (2, 0)] 1 1
   \<and> contains_point sample_polygon 1 1 = Inr False"
  by (simp add: sample_polygon_inside) (simp add: sample_polygon_def contains_point_def)

section \<open>Properties of the region scanner\<close>

text \<open>
  The scoring engine raises for the dictionary that \<open>_score_inmueble\<close> builds, whatever
  the row is. The dictionary has no \<open>latitud\<close>, so the run ends at \<open>evidencias\<close>.
\<close>

lemma score_inmueble_raises: "score_inmueble kws r = Inl NameError"
proof -
  let ?d = "\<lparr>titulo_completo = None, caracteristicas_extras = Some [],
        latitud = None, longitud = None, m2_construidos = None\<rparr>"
  have p: "score_proximity ?d sc = Inr sc" for sc
    by (simp add: score_proximity_def)
  have m: "score_m2 ?d sc = Inr sc" for sc
    by (simp add: score_m2_def)
  have f: "score_features ?d sc = Inr sc" for sc
    by (simp add: score_features_def)
  from score_keywords_cases [of kws "lower (listing_text ?d)"] show ?thesis
    unfolding score_inmueble_def score_def
    by (auto simp: p m f evidencias_def simp del: lower.simps)
qed

lemma score_row_unscored:
  "row_score r = None \<Longrightarrow> score_row mon r db = (Inl NameError, db)"
  by (simp add: score_row_def score_inmueble_raises)

text \<open>
  No region that \<open>_get_region\<close> builds has a bounding box: a circle raises at \<open>cos\<close>, or
  at the division when it has no radius; a polygon and a box raise on the missing
  coordinates; an administrative region, and a region of no shape, have the box \<open>None\<close>.
  So every scan raises before its query, and leaves the store as it was.
\<close>

lemma get_region_bbox:
  assumes "get_region db rid = Inr (Some region)"
  shows "get_bounding_box region = Inl TypeError \<or> get_bounding_box region = Inl NameError
         \<or> get_bounding_box region = Inr None"
proof -
  from assms have c: "coordinates region = None"
    by (auto simp: get_region_def split: option.splits)
  show ?thesis
  proof (cases "shape_type region")
    case None
    then show ?thesis by (simp add: get_bounding_box_def)
  next
    case (Some shape)
    with c show ?thesis
      by (cases shape) (auto simp: get_bounding_box_def split: option.splits)
  qed
qed

lemma scan_region_raises: "\<exists>err. scan_region mon now rid db = (Inl err, db)"
proof (cases "get_region db rid")
  case (Inl err)
  then show ?thesis by (simp add: scan_region_def)
next
  case (Inr found)
  show ?thesis
  proof (cases found)
    case None
    with Inr show ?thesis by (simp add: scan_region_def)
  next
    case (Some region)
    with Inr have g: "get_region db rid = Inr (Some region)" by simp
    from get_region_bbox [OF g] show ?thesis
      by (auto simp: scan_region_def g)
  qed
qed

lemma sample_get_region:
  "get_region sample_db 1 = Inr (Some sample_circle)"
  "get_region sample_db 2 = Inr (Some sample_equator)"
  "get_region sample_db_scored 1 = Inr (Some sample_circle)"
  by (simp_all add: get_region_def sample_db_def sample_db_scored_def sample_circle_def
      sample_equator_def)

lemma sample_bbox:
  "get_bounding_box sample_circle = Inl NameError"
  "get_bounding_box sample_equator = Inl NameError"
  by (simp_all add: get_bounding_box_def sample_circle_def sample_equator_def)

lemma sample_scans:
  "scan_region mon now 1 sample_db = (Inl NameError, sample_db)"
  "scan_region mon now 2 sample_db = (Inl NameError, sample_db)"
  "scan_region mon now 1 sample_db_scored = (Inl NameError, sample_db_scored)"
  by (simp_all add: scan_region_def sample_get_region sample_bbox)

lemma calculate_distance_same: "calculate_distance a b a b = Inr 0"
  by (simp add: calculate_distance_def radians_def py_sqrt_def atan2_def)

lemma sample_inside:
  "contains_point sample_circle 60 10 = Inr True"
  "contains_point sample_equator 0 10 = Inr True"
  by (simp_all add: contains_point_def sample_circle_def sample_equator_def
      calculate_distance_same)

lemma sample_row_fields:
  "row_id (sample_row ident code la stored) = ident"
  "row_lat (sample_row ident code la stored) = la"
  "row_lon (sample_row ident code la stored) = 10"
  "row_score (sample_row ident code la None) = None"
  "row_score (sample_row ident code la (Some (sc, st))) = Some sc"
  "row_status (sample_row ident code la (Some (sc, st))) = Some st"
  "evidences (sample_row ident code la (Some (sc, st))) = Some []"
  by (simp_all add: sample_row_def)

lemma sample_to_center:
  "distance_to_center sample_circle (sample_row ident code 60 stored) = Inr (Some 0)"
  "distance_to_center sample_equator (sample_row ident code 0 stored) = Inr None"
  by (simp_all add: distance_to_center_def sample_circle_def sample_equator_def
      sample_row_def calculate_distance_same)

lemma sample_db_tables:
  "detecciones sample_db k = None"
  "region_alerts sample_db = []"
  "region_alerts sample_db_scored = []"
  "detecciones sample_db_scored 1 = Some (sample_detection 55 ''detected'')"
  "detecciones sample_db_scored 2 = Some (sample_detection 30 ''monitoring'')"
  by (simp_all add: sample_db_def sample_db_scored_def)

text \<open>
  Claim C2, on the code as it stands. No scan returns alerts or stores any: every scan
  raises before it queries the listings. For the circle that holds two listings with the
  stored scores 55 and 30, under the threshold 50, the scan raises \<open>NameError\<close> and the
  alert table stays empty, where the claim expects one alert for the listing scored 55.
\<close>

theorem scan_builds_no_alert:
  "(\<exists>err. scan_region mon now rid db = (Inl err, db))
   \<and> scan_region sample_monitor 7 1 sample_db_scored = (Inl NameError, sample_db_scored)
   \<and> det_score (sample_detection 55 ''detected'') = Some 55
   \<and> detecciones sample_db_scored 1 = Some (sample_detection 55 ''detected'')
   \<and> detecciones sample_db_scored 2 = Some (sample_detection 30 ''monitoring'')
   \<and> region_alerts (snd (scan_region sample_monitor 7 1 sample_db_scored)) = []"
  using scan_region_raises [of mon now rid db]
  by (simp add: sample_scans sample_db_tables sample_detection_def)

text \<open>
  Claim C5, on the code as it stands. For every candidate with no stored score the
  scoring step raises \<open>NameError\<close> and leaves the store as it was, so the loop of the
  scan raises at the first such candidate that passes the containment test: the scoring
  engine is invoked, and nothing is saved to the detection record.
\<close>

theorem unscored_candidate_is_not_saved:
  assumes "row_score r = None"
  shows "score_row mon r db = (Inl NameError, db)
    \<and> (contains_point region (row_lat r) (row_lon r) = Inr True
         \<and> distance_to_center region r = Inr d
       \<longrightarrow> scan_rows mon now rid region (r # rest) db = (Inl NameError, db))"
  using assms by (simp add: score_row_unscored)

theorem unscored_candidate_is_not_saved_witness:
  "row_score (sample_row 1 ''A'' 60 None) = None
   \<and> contains_point sample_circle 60 10 = Inr True
   \<and> distance_to_center sample_circle (sample_row 1 ''A'' 60 None) = Inr (Some 0)
   \<and> score_row sample_monitor (sample_row 1 ''A'' 60 None) sample_db
       = (Inl NameError, sample_db)
   \<and> scan_rows sample_monitor 7 1 sample_circle
        [sample_row 1 ''A'' 60 None, sample_row 2 ''B'' 60 None] sample_db
       = (Inl NameError, sample_db)
   \<and> scan_region sample_monitor 7 1 sample_db = (Inl NameError, sample_db)
   \<and> detecciones sample_db 1 = None"
proof -
  have h: "row_score (sample_row 1 ''A'' 60 None) = None"
    by (simp add: sample_row_fields)
  note t = unscored_candidate_is_not_saved [OF h, of sample_monitor sample_db sample_circle
      "Some 0" 7 1 "[sample_row 2 ''B'' 60 None]"]
  from t h show ?thesis
    by (simp add: sample_row_fields sample_inside sample_to_center sample_scans
        sample_db_tables del: scan_rows.simps)
qed

text \<open>
  Claim C8, at a circle whose centre lies on the equator, with a listing at the centre.
  The scan raises \<open>NameError\<close> before it builds any alert, so no distance to the centre
  is produced. The listing passes the containment test, at the haversine distance 0; and
  the expression of the scan for the distance, \<open>... if region.center_lat else None\<close>,
  gives \<open>None\<close> for it, since the latitude 0.0 of the centre counts as false.
\<close>

theorem equator_circle_scan_raises:
  "shape_type sample_equator = Some CIRCLE
   \<and> center_lat sample_equator = Some 0 \<and> center_lon sample_equator = Some 10
   \<and> scan_region sample_monitor 7 2 sample_db = (Inl NameError, sample_db)
   \<and> contains_point sample_equator 0 10 = Inr True
   \<and> calculate_distance 0 10 0 10 = Inr 0
   \<and> distance_to_center sample_equator (sample_row 3 ''C'' 0 None) = Inr None"
  by (simp add: sample_scans sample_inside sample_to_center calculate_distance_same)
     (simp add: sample_equator_def)

end
